theory Spec2Isabelle
  imports Main "HOL-Library.Sublist"
begin

section \<open>Go strings\<close>

text \<open>
  A Go string is a sequence of bytes; \<^typ>\<open>string\<close> (a list of \<^typ>\<open>char\<close>, each one
  byte) is the same thing. The functions of package \<^verbatim>\<open>strings\<close> the service calls are
  given here as they behave on bytes.
\<close>

text \<open>
  \<^verbatim>\<open>strings.TrimSpace\<close> removes leading and trailing white space as Unicode defines it
  (\<^verbatim>\<open>unicode.IsSpace\<close>). The string is decoded as UTF-8, so a white-space rune is
  recognised by its encoding: the six ASCII bytes tab, line feed, vertical tab, form
  feed, carriage return and space, then U+0085, U+00A0, U+1680, U+2000 to U+200A,
  U+2028, U+2029, U+202F, U+205F and U+3000. A byte that starts no valid encoding
  decodes to the replacement rune, which is not white space, and stops the trimming.
\<close>

definition spaceRunes :: "string list" where
  "spaceRunes =
     [[CHR 0x09], [CHR 0x0A], [CHR 0x0B], [CHR 0x0C], [CHR 0x0D], [CHR 0x20],
      [CHR 0xC2, CHR 0x85], [CHR 0xC2, CHR 0xA0],
      [CHR 0xE1, CHR 0x9A, CHR 0x80],
      [CHR 0xE2, CHR 0x80, CHR 0x80], [CHR 0xE2, CHR 0x80, CHR 0x81],
      [CHR 0xE2, CHR 0x80, CHR 0x82], [CHR 0xE2, CHR 0x80, CHR 0x83],
      [CHR 0xE2, CHR 0x80, CHR 0x84], [CHR 0xE2, CHR 0x80, CHR 0x85],
      [CHR 0xE2, CHR 0x80, CHR 0x86], [CHR 0xE2, CHR 0x80, CHR 0x87],
      [CHR 0xE2, CHR 0x80, CHR 0x88], [CHR 0xE2, CHR 0x80, CHR 0x89],
      [CHR 0xE2, CHR 0x80, CHR 0x8A],
      [CHR 0xE2, CHR 0x80, CHR 0xA8], [CHR 0xE2, CHR 0x80, CHR 0xA9],
      [CHR 0xE2, CHR 0x80, CHR 0xAF],
      [CHR 0xE2, CHR 0x81, CHR 0x9F],
      [CHR 0xE3, CHR 0x80, CHR 0x80]]"

text \<open>
  Dropping the white-space runes a string starts with, given their encodings. The same
  loop run over the reversed string, with the encodings reversed, drops the runes the
  string ends with: Go decodes the last rune by stepping back to the nearest byte that
  can start a rune and decoding forward from there, which yields a white-space rune
  exactly when the string ends with that rune's encoding.
\<close>

fun dropSpaceRunes :: "string list \<Rightarrow> string \<Rightarrow> string" where
  "dropSpaceRunes ws [] = []"
| "dropSpaceRunes ws (c # cs) =
     (case find (\<lambda>w. prefix w (c # cs)) ws of
        None \<Rightarrow> c # cs
      | Some w \<Rightarrow> dropSpaceRunes ws (drop (length w - 1) cs))"

definition TrimSpace :: "string \<Rightarrow> string" where
  "TrimSpace s =
     rev (dropSpaceRunes (map rev spaceRunes) (rev (dropSpaceRunes spaceRunes s)))"

definition HasPrefix :: "string \<Rightarrow> string \<Rightarrow> bool" where
  "HasPrefix s p = prefix p s"

definition HasSuffix :: "string \<Rightarrow> string \<Rightarrow> bool" where
  "HasSuffix s p = suffix p s"

definition TrimPrefix :: "string \<Rightarrow> string \<Rightarrow> string" where
  "TrimPrefix s p = (if HasPrefix s p then drop (length p) s else s)"

definition TrimSuffix :: "string \<Rightarrow> string \<Rightarrow> string" where
  "TrimSuffix s p = (if HasSuffix s p then take (length s - length p) s else s)"

text \<open>
  \<^verbatim>\<open>fmt.Sprintf("%d", n)\<close>: the decimal digits of \<open>n\<close>, most significant first, after a
  minus sign when \<open>n\<close> is negative.
\<close>

fun decimal :: "nat \<Rightarrow> string" where
  "decimal n =
     (if n < 10 then [''0123456789'' ! n]
      else decimal (n div 10) @ [''0123456789'' ! (n mod 10)])"

declare decimal.simps [simp del]

definition Sprintf_d :: "int \<Rightarrow> string" where
  "Sprintf_d n = (if n < 0 then CHR ''-'' # decimal (nat (- n)) else decimal (nat n))"

section \<open>The expiration formatter and the object path builder\<close>

text \<open>
  \<^verbatim>\<open>buildExpire\<close> only compares its arguments with zero and prints them, so the width
  of Go's \<^verbatim>\<open>int\<close> plays no part and the arguments are integers.
\<close>

definition buildExpire :: "int \<Rightarrow> int \<Rightarrow> int \<Rightarrow> string" where
  "buildExpire days hours minutes =
     (if days < 0 \<or> hours < 0 \<or> minutes < 0 then ''''
      else if days = 0 \<and> hours = 0 \<and> minutes = 0 then ''''
      else (if days > 0 then Sprintf_d days @ ''d'' else '''')
         @ (if hours > 0 then Sprintf_d hours @ ''h'' else '''')
         @ (if minutes > 0 then Sprintf_d minutes @ ''m'' else ''''))"

definition clean :: "string \<Rightarrow> string" where
  "clean s = TrimSuffix (TrimPrefix (TrimSpace s) ''/'') ''/''"

definition joinObjectPath :: "string \<Rightarrow> string \<Rightarrow> string" where
  "joinObjectPath folder key =
     (let f = clean folder; k = clean key
      in if f = '''' then k else f @ ''/'' @ k)"

section \<open>Extracting the URL from the tool's output\<close>

text \<open>\<^verbatim>\<open>strings.Split(s, "\n")\<close>: the pieces between line feeds; one piece more than there are line feeds.\<close>

fun SplitLines :: "string \<Rightarrow> string list" where
  "SplitLines [] = [[]]"
| "SplitLines (c # cs) =
     (if c = CHR 0x0A then [] # SplitLines cs
      else (case SplitLines cs of [] \<Rightarrow> [[c]] | l # ls \<Rightarrow> (c # l) # ls))"

text \<open>A Go \<^verbatim>\<open>error\<close> made by \<^verbatim>\<open>errors.New\<close> is its message.\<close>

type_synonym error = string

text \<open>The loop of \<^verbatim>\<open>extractShareURL\<close> over the lines, and the function itself (main.go).\<close>

fun scanShareLines :: "string list \<Rightarrow> error + string" where
  "scanShareLines [] = Inl ''could not find Share: line in mc output''"
| "scanShareLines (line # rest) =
     (let line = TrimSpace line
      in if HasPrefix line ''Share:''
         then (let u = TrimSpace (TrimPrefix line ''Share:'')
               in if u = '''' then Inl ''Share line present but empty'' else Inr u)
         else scanShareLines rest)"

definition extractShareURL :: "string \<Rightarrow> error + string" where
  "extractShareURL out = scanShareLines (SplitLines out)"

text \<open>
  The other variant of the service finds the URL with the regular expression
  \<^verbatim>\<open>https?://[^\s'"]+\<close>. \<^verbatim>\<open>FindString\<close> returns the leftmost match, each repetition taking
  as much as it can, and the empty string when nothing matches. In Go's syntax \<^verbatim>\<open>\s\<close> is
  tab, line feed, form feed, carriage return and space; every other byte, of a valid
  rune or not, belongs to the negated class.
\<close>

definition urlByte :: "char \<Rightarrow> bool" where
  "urlByte c \<longleftrightarrow>
     c \<notin> {CHR 0x09, CHR 0x0A, CHR 0x0C, CHR 0x0D, CHR 0x20, CHR 0x27, CHR 0x22}"

definition matchURLAt :: "string \<Rightarrow> string option" where
  "matchURLAt s =
     (if HasPrefix s ''https://'' \<and> takeWhile urlByte (drop 8 s) \<noteq> []
        then Some (''https://'' @ takeWhile urlByte (drop 8 s))
      else if HasPrefix s ''http://'' \<and> takeWhile urlByte (drop 7 s) \<noteq> []
        then Some (''http://'' @ takeWhile urlByte (drop 7 s))
      else None)"

fun FindString :: "string \<Rightarrow> string" where
  "FindString [] = []"
| "FindString (c # cs) =
     (case matchURLAt (c # cs) of Some m \<Rightarrow> m | None \<Rightarrow> FindString cs)"

definition extractFirstURL :: "string \<Rightarrow> error + string" where
  "extractFirstURL s =
     (let m = FindString s in if m = '''' then Inl ''no URL found'' else Inr m)"

section \<open>Requests, responses and the environment\<close>

record PresignRequest =
  Bucket :: string
  Folder :: string
  Key :: string
  Days :: int
  Hours :: int
  Minutes :: int

record PresignResponse =
  URL :: string
  Object :: string
  RespBucket :: string
  ExpiresIn :: string

record ErrorResponse =
  Error :: string

datatype json = ErrorJSON ErrorResponse | PresignJSON PresignResponse

record http_response =
  status :: nat
  contentType :: string
  body :: json

definition writeJSON :: "nat \<Rightarrow> json \<Rightarrow> http_response" where
  "writeJSON st v = \<lparr>status = st, contentType = ''application/json'', body = v\<rparr>"

text \<open>
  What the handlers read of a request: the method, the path, the two credential headers
  (\<^verbatim>\<open>Header.Get\<close> gives the empty string for a header that is absent), and the body,
  which either cannot be read, is not the JSON of a \<^verbatim>\<open>PresignRequest\<close>, or decodes to one.
\<close>

datatype request_body = ReadFailed | BadJSON | Decoded PresignRequest

record request =
  Method :: string
  URL_Path :: string
  x_api_token :: string
  Authorization :: string
  Body :: request_body

text \<open>The environment variables the service reads; an unset variable reads as empty.\<close>

record env =
  API_TOKEN :: string
  MINIO_ALIAS :: string
  PUBLIC_MINIO_BASE_URL :: string

definition getenv :: "string \<Rightarrow> string \<Rightarrow> string" where
  "getenv v def = (let v = TrimSpace v in if v = '''' then def else v)"

text \<open>
  \<^verbatim>\<open>strings.ToLower\<close> on bytes: the ASCII capitals are lowered. Go also lowers other
  runes, but none of them lowers to a letter of \<^verbatim>\<open>bearer\<close> or to a space, so a test for the
  prefix \<^verbatim>\<open>"bearer "\<close> after lowering gives the same answer; and a URL scheme, the other
  string the code lowers, is made of ASCII bytes.
\<close>

definition lowerByte :: "char \<Rightarrow> char" where
  "lowerByte c =
     (let n = (of_char c :: nat) in if 65 \<le> n \<and> n \<le> 90 then char_of (n + 32) else c)"

definition ToLower :: "string \<Rightarrow> string" where
  "ToLower s = map lowerByte s"

section \<open>The auth gate\<close>

text \<open>
  A handler answers a request and may change the world outside (the tool it runs):
  it maps a request and a world to a response and the world afterwards. \<^verbatim>\<open>withAuth\<close>
  wraps any handler. The slice \<^verbatim>\<open>h2[7:]\<close> is taken only after the test for the prefix of
  seven bytes has passed, so it is never out of range and is \<open>drop 7 h2\<close>.
\<close>

type_synonym 'w handler = "request \<Rightarrow> 'w \<Rightarrow> http_response \<times> 'w"

definition withAuth :: "env \<Rightarrow> 'w handler \<Rightarrow> 'w handler" where
  "withAuth e next r w =
     (if URL_Path r = ''/health'' then next r w
      else
        let token = TrimSpace (API_TOKEN e) in
        if token = ''''
        then (writeJSON 500 (ErrorJSON \<lparr>Error = ''API_TOKEN is not set on server''\<rparr>), w)
        else
          let h1 = TrimSpace (x_api_token r);
              h2 = TrimSpace (Authorization r);
              ok = False;
              ok = (if h1 \<noteq> '''' \<and> h1 = token then True else ok);
              ok = (if \<not> ok \<and> HasPrefix (ToLower h2) ''bearer ''
                    then (if TrimSpace (drop 7 h2) = token then True else ok)
                    else ok)
          in if \<not> ok
             then (writeJSON 401 (ErrorJSON \<lparr>Error = ''unauthorized''\<rparr>), w)
             else next r w)"

section \<open>URLs\<close>

text \<open>
  \<^verbatim>\<open>rewritePublicBase\<close> calls \<^verbatim>\<open>url.Parse\<close> and \<^verbatim>\<open>URL.String\<close> of Go's standard library
  (package \<^verbatim>\<open>net/url\<close>, Go 1.22, the version the Dockerfile builds with). The library is
  not part of the repository, so the rewriter below takes the two functions as
  parameters, and what is proved of it in general holds for any two functions. This
  section models the two after the library's source, function by function and on bytes,
  to run the rewriter on concrete URLs. An error is a short message that names its
  kind: the service tests an error for \<^verbatim>\<open>nil\<close> and never reads it.
\<close>

record Userinfo =
  username :: string
  password :: string
  passwordSet :: bool

record url =
  Scheme :: string
  Opaque :: string
  User :: "Userinfo option"
  Host :: string
  Path :: string
  RawPath :: string
  OmitHost :: bool
  ForceQuery :: bool
  RawQuery :: string
  Fragment :: string
  RawFragment :: string

definition emptyURL :: url where
  "emptyURL = \<lparr>Scheme = '''', Opaque = '''', User = None, Host = '''', Path = '''',
     RawPath = '''', OmitHost = False, ForceQuery = False, RawQuery = '''', Fragment = '''',
     RawFragment = ''''\<rparr>"

datatype encoding = encodePath | encodePathSegment | encodeHost | encodeZone
  | encodeUserPassword | encodeQueryComponent | encodeFragment

definition isLetter :: "char \<Rightarrow> bool" where
  "isLetter c =
     (let n = (of_char c :: nat) in (97 \<le> n \<and> n \<le> 122) \<or> (65 \<le> n \<and> n \<le> 90))"

definition isDigit :: "char \<Rightarrow> bool" where
  "isDigit c = (let n = (of_char c :: nat) in 48 \<le> n \<and> n \<le> 57)"

definition shouldEscape :: "char \<Rightarrow> encoding \<Rightarrow> bool" where
  "shouldEscape c mode =
     (if isLetter c \<or> isDigit c then False
      else if (mode = encodeHost \<or> mode = encodeZone) \<and>
              c \<in> set [CHR ''!'', CHR ''$'', CHR ''&'', CHR 0x27, CHR ''('', CHR '')'', CHR ''*'',
                        CHR ''+'', CHR '','', CHR '';'', CHR ''='', CHR '':'', CHR ''['', CHR '']'',
                        CHR ''<'', CHR ''>'', CHR 0x22] then False
      else if c \<in> set ''-_.~'' then False
      else if c \<in> set ''$&+,/:;=?@'' \<and> mode = encodePath then c = CHR ''?''
      else if c \<in> set ''$&+,/:;=?@'' \<and> mode = encodePathSegment then c \<in> set ''/;,?''
      else if c \<in> set ''$&+,/:;=?@'' \<and> mode = encodeUserPassword then c \<in> set ''@/?:''
      else if c \<in> set ''$&+,/:;=?@'' \<and> mode = encodeQueryComponent then True
      else if c \<in> set ''$&+,/:;=?@'' \<and> mode = encodeFragment then False
      else if mode = encodeFragment \<and> c \<in> set ''!()*'' then False
      else True)"

definition ishex :: "char \<Rightarrow> bool" where
  "ishex c =
     (let n = (of_char c :: nat)
      in (48 \<le> n \<and> n \<le> 57) \<or> (97 \<le> n \<and> n \<le> 102) \<or> (65 \<le> n \<and> n \<le> 70))"

definition unhex :: "char \<Rightarrow> nat" where
  "unhex c =
     (let n = (of_char c :: nat)
      in if 48 \<le> n \<and> n \<le> 57 then n - 48
         else if 97 \<le> n \<and> n \<le> 102 then n - 97 + 10
         else if 65 \<le> n \<and> n \<le> 70 then n - 65 + 10
         else 0)"

text \<open>The first pass of \<^verbatim>\<open>unescape\<close>: the error it returns, if any.\<close>

fun unescapeError :: "encoding \<Rightarrow> string \<Rightarrow> error option" where
  "unescapeError mode [] = None"
| "unescapeError mode (c # cs) =
     (if c = CHR ''%'' then
        (case cs of
           a # b # rest \<Rightarrow>
             if \<not> ishex a \<or> \<not> ishex b then Some ''invalid URL escape''
             else if mode = encodeHost \<and> unhex a < 8 \<and> [c, a, b] \<noteq> ''%25''
               then Some ''invalid URL escape''
             else if mode = encodeZone \<and> [c, a, b] \<noteq> ''%25'' \<and> unhex a * 16 + unhex b \<noteq> 32 \<and>
                     shouldEscape (char_of (unhex a * 16 + unhex b)) encodeHost
               then Some ''invalid URL escape''
             else unescapeError mode rest
         | _ \<Rightarrow> Some ''invalid URL escape'')
      else if c = CHR ''+'' then unescapeError mode cs
      else if (mode = encodeHost \<or> mode = encodeZone) \<and> (of_char c :: nat) < 128 \<and>
              shouldEscape c encodeHost
        then Some ''invalid character in host name''
      else unescapeError mode cs)"

text \<open>The second pass: the escapes decoded.\<close>

fun unescapeBytes :: "encoding \<Rightarrow> string \<Rightarrow> string" where
  "unescapeBytes mode [] = []"
| "unescapeBytes mode (c # cs) =
     (if c = CHR ''%'' then
        (case cs of
           a # b # rest \<Rightarrow> char_of (unhex a * 16 + unhex b) # unescapeBytes mode rest
         | _ \<Rightarrow> c # unescapeBytes mode cs)
      else if c = CHR ''+'' \<and> mode = encodeQueryComponent then CHR '' '' # unescapeBytes mode cs
      else c # unescapeBytes mode cs)"

definition unescape :: "string \<Rightarrow> encoding \<Rightarrow> error + string" where
  "unescape s mode =
     (case unescapeError mode s of Some e \<Rightarrow> Inl e | None \<Rightarrow> Inr (unescapeBytes mode s))"

definition escapeByte :: "encoding \<Rightarrow> char \<Rightarrow> string" where
  "escapeByte mode c =
     (if shouldEscape c mode then
        (if c = CHR '' '' \<and> mode = encodeQueryComponent then ''+''
         else [CHR ''%'', ''0123456789ABCDEF'' ! ((of_char c :: nat) div 16),
               ''0123456789ABCDEF'' ! ((of_char c :: nat) mod 16)])
      else [c])"

definition escape :: "string \<Rightarrow> encoding \<Rightarrow> string" where
  "escape s mode = concat (map (escapeByte mode) s)"

definition validEncoded :: "string \<Rightarrow> encoding \<Rightarrow> bool" where
  "validEncoded s mode =
     list_all (\<lambda>c. c \<in> set [CHR ''!'', CHR ''$'', CHR ''&'', CHR 0x27, CHR ''('', CHR '')'',
                             CHR ''*'', CHR ''+'', CHR '','', CHR '';'', CHR ''='', CHR '':'',
                             CHR ''@'', CHR ''['', CHR '']'', CHR ''%'']
                    \<or> \<not> shouldEscape c mode) s"

definition stringContainsCTLByte :: "string \<Rightarrow> bool" where
  "stringContainsCTLByte s = list_ex (\<lambda>c. (of_char c :: nat) < 32 \<or> (of_char c :: nat) = 127) s"

text \<open>\<^verbatim>\<open>strings.Cut\<close> at a single byte: what stands before its first occurrence and what after.\<close>

definition Cut :: "string \<Rightarrow> char \<Rightarrow> string \<times> string" where
  "Cut s sep = (takeWhile (\<lambda>c. c \<noteq> sep) s, drop 1 (dropWhile (\<lambda>c. c \<noteq> sep) s))"

fun LastIndexByte :: "string \<Rightarrow> char \<Rightarrow> nat option" where
  "LastIndexByte [] sep = None"
| "LastIndexByte (c # cs) sep =
     (case LastIndexByte cs sep of
        Some i \<Rightarrow> Some (Suc i)
      | None \<Rightarrow> if c = sep then Some 0 else None)"

fun Index :: "string \<Rightarrow> string \<Rightarrow> nat option" where
  "Index [] sub = (if sub = [] then Some 0 else None)"
| "Index (c # cs) sub =
     (if prefix sub (c # cs) then Some 0 else map_option Suc (Index cs sub))"

fun schemeScan :: "string \<Rightarrow> nat \<Rightarrow> string \<Rightarrow> error + string \<times> string" where
  "schemeScan rawURL i [] = Inr ('''', rawURL)"
| "schemeScan rawURL i (c # cs) =
     (if isLetter c then schemeScan rawURL (Suc i) cs
      else if isDigit c \<or> c \<in> set ''+-.'' then
        (if i = 0 then Inr ('''', rawURL) else schemeScan rawURL (Suc i) cs)
      else if c = CHR '':'' then
        (if i = 0 then Inl ''missing protocol scheme'' else Inr (take i rawURL, cs))
      else Inr ('''', rawURL))"

definition getScheme :: "string \<Rightarrow> error + string \<times> string" where
  "getScheme rawURL = schemeScan rawURL 0 rawURL"

definition validOptionalPort :: "string \<Rightarrow> bool" where
  "validOptionalPort port =
     (case port of [] \<Rightarrow> True | c # ds \<Rightarrow> c = CHR '':'' \<and> list_all isDigit ds)"

definition validUserinfo :: "string \<Rightarrow> bool" where
  "validUserinfo s =
     list_all (\<lambda>c. isLetter c \<or> isDigit c \<or>
                    c \<in> set [CHR ''-'', CHR ''.'', CHR ''_'', CHR '':'', CHR ''~'', CHR ''!'',
                              CHR ''$'', CHR ''&'', CHR 0x27, CHR ''('', CHR '')'', CHR ''*'',
                              CHR ''+'', CHR '','', CHR '';'', CHR ''='', CHR ''%'', CHR ''@'']) s"

definition parseHost :: "string \<Rightarrow> error + string" where
  "parseHost host =
     (if HasPrefix host ''['' then
        (case LastIndexByte host CHR '']'' of
           None \<Rightarrow> Inl ''missing ] in host''
         | Some i \<Rightarrow>
             if \<not> validOptionalPort (drop (Suc i) host) then Inl ''invalid port after host''
             else
               (case Index (take i host) ''%25'' of
                  Some zone \<Rightarrow>
                    (case unescape (take zone host) encodeHost of
                       Inl e \<Rightarrow> Inl e
                     | Inr host1 \<Rightarrow>
                         (case unescape (drop zone (take i host)) encodeZone of
                            Inl e \<Rightarrow> Inl e
                          | Inr host2 \<Rightarrow>
                              (case unescape (drop i host) encodeHost of
                                 Inl e \<Rightarrow> Inl e
                               | Inr host3 \<Rightarrow> Inr (host1 @ host2 @ host3))))
                | None \<Rightarrow> unescape host encodeHost))
      else
        (case LastIndexByte host CHR '':'' of
           Some i \<Rightarrow>
             if \<not> validOptionalPort (drop i host) then Inl ''invalid port after host''
             else unescape host encodeHost
         | None \<Rightarrow> unescape host encodeHost))"

definition parseAuthority :: "string \<Rightarrow> error + Userinfo option \<times> string" where
  "parseAuthority authority =
     (case LastIndexByte authority CHR ''@'' of
        None \<Rightarrow>
          (case parseHost authority of Inl e \<Rightarrow> Inl e | Inr host \<Rightarrow> Inr (None, host))
      | Some i \<Rightarrow>
          (case parseHost (drop (Suc i) authority) of
             Inl e \<Rightarrow> Inl e
           | Inr host \<Rightarrow>
               let userinfo = take i authority in
               if \<not> validUserinfo userinfo then Inl ''net/url: invalid userinfo''
               else if CHR '':'' \<notin> set userinfo then
                 (case unescape userinfo encodeUserPassword of
                    Inl e \<Rightarrow> Inl e
                  | Inr name \<Rightarrow>
                      Inr (Some \<lparr>username = name, password = '''', passwordSet = False\<rparr>, host))
               else
                 (case unescape (fst (Cut userinfo CHR '':'')) encodeUserPassword of
                    Inl e \<Rightarrow> Inl e
                  | Inr name \<Rightarrow>
                      (case unescape (snd (Cut userinfo CHR '':'')) encodeUserPassword of
                         Inl e \<Rightarrow> Inl e
                       | Inr pass \<Rightarrow>
                           Inr (Some \<lparr>username = name, password = pass, passwordSet = True\<rparr>,
                                host)))))"

definition setPath :: "url \<Rightarrow> string \<Rightarrow> error + url" where
  "setPath u p =
     (case unescape p encodePath of
        Inl e \<Rightarrow> Inl e
      | Inr path \<Rightarrow>
          Inr (u\<lparr>Path := path, RawPath := (if p = escape path encodePath then '''' else p)\<rparr>))"

definition setFragment :: "url \<Rightarrow> string \<Rightarrow> error + url" where
  "setFragment u f =
     (case unescape f encodeFragment of
        Inl e \<Rightarrow> Inl e
      | Inr frag \<Rightarrow>
          Inr (u\<lparr>Fragment := frag,
                 RawFragment := (if f = escape frag encodeFragment then '''' else f)\<rparr>))"

text \<open>\<^verbatim>\<open>parse(rawURL, false)\<close>: a URL without its fragment.\<close>

definition parse :: "string \<Rightarrow> error + url" where
  "parse rawURL =
     (if stringContainsCTLByte rawURL then Inl ''net/url: invalid control character in URL''
      else if rawURL = ''*'' then Inr (emptyURL\<lparr>Path := ''*''\<rparr>)
      else
        (case getScheme rawURL of
           Inl e \<Rightarrow> Inl e
         | Inr (scheme, rest) \<Rightarrow>
             let u = emptyURL\<lparr>Scheme := ToLower scheme\<rparr>;
                 force = (HasSuffix rest ''?'' \<and> count_list rest CHR ''?'' = 1);
                 u = (if force then u\<lparr>ForceQuery := True\<rparr>
                      else u\<lparr>RawQuery := snd (Cut rest CHR ''?'')\<rparr>);
                 rest = (if force then butlast rest else fst (Cut rest CHR ''?''))
             in
               if \<not> HasPrefix rest ''/'' \<and> Scheme u \<noteq> '''' then Inr (u\<lparr>Opaque := rest\<rparr>)
               else if \<not> HasPrefix rest ''/'' \<and> CHR '':'' \<in> set (fst (Cut rest CHR ''/''))
                 then Inl ''first path segment in URL cannot contain colon''
               else if (Scheme u \<noteq> '''' \<or> \<not> HasPrefix rest ''///'') \<and> HasPrefix rest ''//'' then
                 (let authority = takeWhile (\<lambda>c. c \<noteq> CHR ''/'') (drop 2 rest);
                      rest = dropWhile (\<lambda>c. c \<noteq> CHR ''/'') (drop 2 rest)
                  in case parseAuthority authority of
                       Inl e \<Rightarrow> Inl e
                     | Inr (user, host) \<Rightarrow> setPath (u\<lparr>User := user, Host := host\<rparr>) rest)
               else if Scheme u \<noteq> '''' \<and> HasPrefix rest ''/'' then
                 setPath (u\<lparr>OmitHost := True\<rparr>) rest
               else setPath u rest))"

definition url_Parse :: "string \<Rightarrow> error + url" where
  "url_Parse rawURL =
     (let u = fst (Cut rawURL CHR ''#''); frag = snd (Cut rawURL CHR ''#'')
      in case parse u of
           Inl e \<Rightarrow> Inl e
         | Inr parsed \<Rightarrow> if frag = '''' then Inr parsed else setFragment parsed frag)"

definition EscapedPath :: "url \<Rightarrow> string" where
  "EscapedPath u =
     (if RawPath u \<noteq> '''' \<and> validEncoded (RawPath u) encodePath \<and>
         unescape (RawPath u) encodePath = Inr (Path u)
      then RawPath u
      else if Path u = ''*'' then ''*''
      else escape (Path u) encodePath)"

definition EscapedFragment :: "url \<Rightarrow> string" where
  "EscapedFragment u =
     (if RawFragment u \<noteq> '''' \<and> validEncoded (RawFragment u) encodeFragment \<and>
         unescape (RawFragment u) encodeFragment = Inr (Fragment u)
      then RawFragment u
      else escape (Fragment u) encodeFragment)"

definition Userinfo_String :: "Userinfo \<Rightarrow> string" where
  "Userinfo_String ui =
     escape (username ui) encodeUserPassword
     @ (if passwordSet ui then '':'' @ escape (password ui) encodeUserPassword else '''')"

text \<open>\<^verbatim>\<open>(*URL).String\<close>: the pieces are written to a buffer one after the other.\<close>

definition url_String :: "url \<Rightarrow> string" where
  "url_String u =
     (let buf = (if Scheme u \<noteq> '''' then Scheme u @ '':'' else '''');
          buf =
            (if Opaque u \<noteq> '''' then buf @ Opaque u
             else
               let buf =
                     (if Scheme u \<noteq> '''' \<or> Host u \<noteq> '''' \<or> User u \<noteq> None then
                        (if OmitHost u \<and> Host u = '''' \<and> User u = None then buf
                         else
                           buf
                           @ (if Host u \<noteq> '''' \<or> Path u \<noteq> '''' \<or> User u \<noteq> None then ''//''
                              else '''')
                           @ (case User u of None \<Rightarrow> '''' | Some ui \<Rightarrow> Userinfo_String ui @ ''@'')
                           @ (if Host u \<noteq> '''' then escape (Host u) encodeHost else ''''))
                      else buf);
                   path = EscapedPath u;
                   buf = (if path \<noteq> '''' \<and> hd path \<noteq> CHR ''/'' \<and> Host u \<noteq> ''''
                          then buf @ ''/'' else buf);
                   buf = (if buf = '''' \<and> CHR '':'' \<in> set (fst (Cut path CHR ''/''))
                          then buf @ ''./'' else buf)
               in buf @ path);
          buf = (if ForceQuery u \<or> RawQuery u \<noteq> '''' then buf @ ''?'' @ RawQuery u else buf);
          buf = (if Fragment u \<noteq> '''' then buf @ ''#'' @ EscapedFragment u else buf)
      in buf)"

section \<open>The URL rewriter\<close>

text \<open>
  \<^verbatim>\<open>rewritePublicBase\<close> (main.go), given the library's \<^verbatim>\<open>url.Parse\<close> and \<^verbatim>\<open>URL.String\<close> and
  the value of \<^verbatim>\<open>PUBLIC_MINIO_BASE_URL\<close> in the environment.
\<close>

definition rewritePublicBase ::
  "(string \<Rightarrow> error + url) \<Rightarrow> (url \<Rightarrow> string) \<Rightarrow> env \<Rightarrow> string \<Rightarrow> string" where
  "rewritePublicBase urlParse urlString e u =
     (let publicBase = TrimSpace (PUBLIC_MINIO_BASE_URL e) in
      if publicBase = '''' then u
      else
        (case urlParse u of
           Inl err \<Rightarrow> u
         | Inr parsed \<Rightarrow>
             (case urlParse publicBase of
                Inl err \<Rightarrow> u
              | Inr pub \<Rightarrow> urlString (parsed\<lparr>Scheme := Scheme pub, Host := Host pub\<rparr>))))"

section \<open>The external tool and the presign handler\<close>

text \<open>
  Running the tool is the one effect of the handler. What the handler sees of a run is
  the combined output, the error of \<^verbatim>\<open>CombinedOutput\<close> (\<^verbatim>\<open>nil\<close> exactly when the tool was
  started and exited with status zero; its message otherwise) and the state of the
  context afterwards. The runner is a parameter: given the program's name and its
  arguments it takes the world to a run and the world afterwards.
\<close>

datatype ctx_error = Canceled | DeadlineExceeded

record cmd_run =
  combinedOutput :: string
  cmdErr :: "error option"
  ctxErr :: "ctx_error option"

type_synonym 'w runner = "string \<Rightarrow> string list \<Rightarrow> 'w \<Rightarrow> cmd_run \<times> 'w"

definition errorJSON :: "nat \<Rightarrow> string \<Rightarrow> http_response" where
  "errorJSON st msg = writeJSON st (ErrorJSON \<lparr>Error = msg\<rparr>)"

text \<open>\<^verbatim>\<open>presignHandler\<close> of main.go.\<close>

definition presignHandler ::
  "(string \<Rightarrow> error + url) \<Rightarrow> (url \<Rightarrow> string) \<Rightarrow> env \<Rightarrow> 'w runner \<Rightarrow> 'w handler" where
  "presignHandler urlParse urlString e run r w =
     (if Method r \<noteq> ''POST'' then (errorJSON 405 ''method not allowed'', w)
      else
        (case Body r of
           ReadFailed \<Rightarrow> (errorJSON 400 ''unable to read request body'', w)
         | BadJSON \<Rightarrow> (errorJSON 400 ''invalid JSON body'', w)
         | Decoded req \<Rightarrow>
             let req = req\<lparr>Bucket := TrimSpace (Bucket req)\<rparr>;
                 req = req\<lparr>Folder := TrimSpace (Folder req)\<rparr>;
                 req = req\<lparr>Key := TrimSpace (Key req)\<rparr>
             in
               if Bucket req = '''' then (errorJSON 400 ''bucket is required'', w)
               else if Key req = '''' then (errorJSON 400 ''key is required'', w)
               else
                 let alias = getenv (MINIO_ALIAS e) ''myminio'';
                     objectPath = joinObjectPath (Folder req) (Key req);
                     target = alias @ ''/'' @ Bucket req @ ''/'' @ objectPath;
                     expire = buildExpire (Days req) (Hours req) (Minutes req);
                     expire = (if expire = '''' then ''15m'' else expire);
                     (res, w') = run ''mc'' [''share'', ''download'', ''--expire'', expire, target] w;
                     out = combinedOutput res
                 in
                   if ctxErr res = Some DeadlineExceeded
                   then (errorJSON 504 ''mc command timed out'', w')
                   else
                     (case cmdErr res of
                        Some cmdError \<Rightarrow>
                          let msg = TrimSpace out;
                              msg = (if msg = '''' then cmdError else msg)
                          in (errorJSON 400 msg, w')
                      | None \<Rightarrow>
                          (case extractShareURL out of
                             Inl err \<Rightarrow>
                               (errorJSON 400
                                  (''could not parse Share URL. mc output: '' @ TrimSpace out), w')
                           | Inr urlStr \<Rightarrow>
                               let urlStr = rewritePublicBase urlParse urlString e urlStr
                               in (writeJSON 200
                                     (PresignJSON \<lparr>URL = urlStr, Object = objectPath,
                                        RespBucket = Bucket req, ExpiresIn = expire\<rparr>), w')))))"

text \<open>
  \<^verbatim>\<open>presignHandler\<close> of the other variant of the service (the second \<^verbatim>\<open>main\<close> package
  among the sources). It decodes the body as it reads it, so a body that cannot be read
  is a body that does not decode; it finds the URL by the regular expression and does
  not rewrite it.
\<close>

definition presignHandler_alt :: "env \<Rightarrow> 'w runner \<Rightarrow> 'w handler" where
  "presignHandler_alt e run r w =
     (if Method r \<noteq> ''POST'' then (errorJSON 405 ''method not allowed'', w)
      else
        (case Body r of
           ReadFailed \<Rightarrow> (errorJSON 400 ''invalid JSON body'', w)
         | BadJSON \<Rightarrow> (errorJSON 400 ''invalid JSON body'', w)
         | Decoded req \<Rightarrow>
             let req = req\<lparr>Bucket := TrimSpace (Bucket req)\<rparr>;
                 req = req\<lparr>Folder := TrimSpace (Folder req)\<rparr>;
                 req = req\<lparr>Key := TrimSpace (Key req)\<rparr>
             in
               if Bucket req = '''' then (errorJSON 400 ''bucket is required'', w)
               else if Key req = '''' then (errorJSON 400 ''key is required'', w)
               else
                 let alias = getenv (MINIO_ALIAS e) ''myminio'';
                     objectPath = joinObjectPath (Folder req) (Key req);
                     target = alias @ ''/'' @ Bucket req @ ''/'' @ objectPath;
                     expire = buildExpire (Days req) (Hours req) (Minutes req);
                     expire = (if expire = '''' then ''15m'' else expire);
                     (res, w') = run ''mc'' [''share'', ''download'', ''--expire'', expire, target] w;
                     out = combinedOutput res
                 in
                   if ctxErr res = Some DeadlineExceeded
                   then (errorJSON 504 ''mc command timed out'', w')
                   else
                     (case cmdErr res of
                        Some cmdError \<Rightarrow>
                          let msg = TrimSpace out;
                              msg = (if msg = '''' then cmdError else msg)
                          in (errorJSON 400 msg, w')
                      | None \<Rightarrow>
                          (case extractFirstURL out of
                             Inl err \<Rightarrow>
                               (errorJSON 500 ''could not extract URL from mc output'', w')
                           | Inr url \<Rightarrow>
                               (writeJSON 200
                                  (PresignJSON \<lparr>URL = url, Object = objectPath,
                                     RespBucket = Bucket req, ExpiresIn = expire\<rparr>), w')))))"

section \<open>Notions the properties are stated with\<close>

text \<open>
  A request passes validation when it is a POST whose body decodes to a
  \<^verbatim>\<open>PresignRequest\<close> with a bucket and a key that are not empty after trimming.
\<close>

definition accepted :: "request \<Rightarrow> PresignRequest \<Rightarrow> bool" where
  "accepted r q \<longleftrightarrow>
     Method r = ''POST'' \<and> Body r = Decoded q \<and>
     TrimSpace (Bucket q) \<noteq> '''' \<and> TrimSpace (Key q) \<noteq> ''''"

text \<open>
  The values both variants of the handler compute from an accepted request before they
  run the tool: the duration, the object path, the signing target and the tool's
  arguments.
\<close>

definition expireArg :: "PresignRequest \<Rightarrow> string" where
  "expireArg q =
     (let expire = buildExpire (Days q) (Hours q) (Minutes q)
      in if expire = '''' then ''15m'' else expire)"

definition objectPathOf :: "PresignRequest \<Rightarrow> string" where
  "objectPathOf q = joinObjectPath (TrimSpace (Folder q)) (TrimSpace (Key q))"

definition signingTarget :: "env \<Rightarrow> PresignRequest \<Rightarrow> string" where
  "signingTarget e q =
     getenv (MINIO_ALIAS e) ''myminio'' @ ''/'' @ TrimSpace (Bucket q) @ ''/'' @ objectPathOf q"

definition mcArgs :: "env \<Rightarrow> PresignRequest \<Rightarrow> string list" where
  "mcArgs e q = [''share'', ''download'', ''--expire'', expireArg q, signingTarget e q]"

text \<open>
  The expiration string in the words of the specification: the components that are not
  zero, each written as its number and its unit, days then hours then minutes, with
  nothing between them.
\<close>

definition expirationSpec :: "int \<Rightarrow> int \<Rightarrow> int \<Rightarrow> string" where
  "expirationSpec d h m =
     concat (map (\<lambda>(n, unit). Sprintf_d n @ [unit])
               (filter (\<lambda>(n, unit). n \<noteq> 0) [(d, CHR ''d''), (h, CHR ''h''), (m, CHR ''m'')]))"

text \<open>
  The credential rule in the words of the specification. A header carries the bearer
  scheme when its first seven bytes are \<^verbatim>\<open>bearer\<close> and a space, letters compared without
  regard to case; the token is what follows them.
\<close>

definition bearerScheme :: "string \<Rightarrow> bool" where
  "bearerScheme h \<longleftrightarrow> map lowerByte (take 7 h) = ''bearer ''"

definition credentialAccepted :: "string \<Rightarrow> string \<Rightarrow> string \<Rightarrow> bool" where
  "credentialAccepted secret apiToken authorization \<longleftrightarrow>
     TrimSpace apiToken = secret \<or>
     (bearerScheme (TrimSpace authorization) \<and>
      TrimSpace (drop 7 (TrimSpace authorization)) = secret)"

text \<open>The first line of the output that begins, once trimmed, with the marker.\<close>

definition firstShareLine :: "string \<Rightarrow> string option" where
  "firstShareLine out = find (\<lambda>l. HasPrefix l ''Share:'') (map TrimSpace (SplitLines out))"

text \<open>A segment with at most one separator at its start and at most one at its end.\<close>

definition singleSeparators :: "string \<Rightarrow> bool" where
  "singleSeparators t \<longleftrightarrow> \<not> HasPrefix t ''//'' \<and> \<not> HasSuffix t ''//''"

text \<open>
  A runner for the examples: it answers every call with the same run and appends the
  command line to the world, which is the list of the command lines run so far.
\<close>

definition cannedRun :: "cmd_run \<Rightarrow> string list list runner" where
  "cannedRun res name args w = (res, w @ [name # args])"

definition exampleEnv :: env where
  "exampleEnv = \<lparr>API_TOKEN = ''s3cret'', MINIO_ALIAS = '''', PUBLIC_MINIO_BASE_URL = ''''\<rparr>"

definition examplePost :: "PresignRequest \<Rightarrow> request" where
  "examplePost q = \<lparr>Method = ''POST'', URL_Path = ''/presign'', x_api_token = ''s3cret'',
     Authorization = '''', Body = Decoded q\<rparr>"

definition shareRun :: cmd_run where
  "shareRun = \<lparr>combinedOutput = ''URL: https://s3.local/b/f.pdf\<newline>Share: https://s3.local/b/f.pdf?sig=z\<newline>'',
     cmdErr = None, ctxErr = None\<rparr>"

section \<open>The handlers on an accepted request\<close>

lemma presignHandler_accepted:
  assumes "accepted r q" and "run ''mc'' (mcArgs e q) w = (res, w')"
  shows "presignHandler urlParse urlString e run r w =
     (if ctxErr res = Some DeadlineExceeded then (errorJSON 504 ''mc command timed out'', w')
      else
        (case cmdErr res of
           Some cmdError \<Rightarrow>
             (errorJSON 400 (if TrimSpace (combinedOutput res) = '''' then cmdError
                             else TrimSpace (combinedOutput res)), w')
         | None \<Rightarrow>
             (case extractShareURL (combinedOutput res) of
                Inl err \<Rightarrow>
                  (errorJSON 400
                     (''could not parse Share URL. mc output: '' @ TrimSpace (combinedOutput res)),
                   w')
              | Inr urlStr \<Rightarrow>
                  (writeJSON 200
                     (PresignJSON \<lparr>URL = rewritePublicBase urlParse urlString e urlStr,
                        Object = objectPathOf q, RespBucket = TrimSpace (Bucket q),
                        ExpiresIn = expireArg q\<rparr>), w'))))"
  using assms
  unfolding presignHandler_def accepted_def mcArgs_def signingTarget_def objectPathOf_def
    expireArg_def
  by (simp add: Let_def split: option.split sum.split)

lemma presignHandler_alt_accepted:
  assumes "accepted r q" and "run ''mc'' (mcArgs e q) w = (res, w')"
  shows "presignHandler_alt e run r w =
     (if ctxErr res = Some DeadlineExceeded then (errorJSON 504 ''mc command timed out'', w')
      else
        (case cmdErr res of
           Some cmdError \<Rightarrow>
             (errorJSON 400 (if TrimSpace (combinedOutput res) = '''' then cmdError
                             else TrimSpace (combinedOutput res)), w')
         | None \<Rightarrow>
             (case extractFirstURL (combinedOutput res) of
                Inl err \<Rightarrow> (errorJSON 500 ''could not extract URL from mc output'', w')
              | Inr url \<Rightarrow>
                  (writeJSON 200
                     (PresignJSON \<lparr>URL = url, Object = objectPathOf q,
                        RespBucket = TrimSpace (Bucket q), ExpiresIn = expireArg q\<rparr>), w'))))"
  using assms
  unfolding presignHandler_alt_def accepted_def mcArgs_def signingTarget_def objectPathOf_def
    expireArg_def
  by (simp add: Let_def split: option.split sum.split)

section \<open>The auth gate: properties\<close>

lemma prefix_take_iff: "prefix p xs \<longleftrightarrow> take (length p) xs = p"
  by (metis append_eq_conv_conj prefix_def take_is_prefix)

lemma HasPrefix_ToLower_bearer: "HasPrefix (ToLower h) ''bearer '' \<longleftrightarrow> bearerScheme h"
proof -
  have "length ''bearer '' = 7" by simp
  then show ?thesis
    unfolding HasPrefix_def ToLower_def bearerScheme_def prefix_take_iff take_map
    by (simp only:)
qed

text \<open>
  Claim C1. On a request for any path but the health path, when the configured secret
  \<^verbatim>\<open>API_TOKEN\<close> is empty after trimming, the gate answers 500 with the
  misconfiguration error whatever the two credential headers hold. The answer does not
  depend on the wrapped handler and the world is left as it was: the handler is not run.
\<close>

theorem withAuth_empty_secret:
  assumes "URL_Path r \<noteq> ''/health''" and "TrimSpace (API_TOKEN e) = ''''"
  shows "withAuth e next r w =
           (writeJSON 500 (ErrorJSON \<lparr>Error = ''API_TOKEN is not set on server''\<rparr>), w)"
  using assms by (simp add: withAuth_def)

text \<open>
  An instance: the secret is two spaces, the request presents a credential in both
  headers, and the wrapped handler would count its call in the world.
\<close>

theorem withAuth_empty_secret_witness:
  "withAuth \<lparr>API_TOKEN = ''  '', MINIO_ALIAS = '''', PUBLIC_MINIO_BASE_URL = ''''\<rparr>
     (\<lambda>r w. (writeJSON 200 (ErrorJSON \<lparr>Error = ''reached''\<rparr>), Suc w))
     \<lparr>Method = ''POST'', URL_Path = ''/presign'', x_api_token = ''s3cret'',
        Authorization = ''Bearer s3cret'', Body = BadJSON\<rparr> (0::nat) =
   (writeJSON 500 (ErrorJSON \<lparr>Error = ''API_TOKEN is not set on server''\<rparr>), 0)"
proof -
  have secret: "TrimSpace (API_TOKEN \<lparr>API_TOKEN = ''  '', MINIO_ALIAS = '''',
      PUBLIC_MINIO_BASE_URL = ''''\<rparr>) = ''''"
    by code_simp
  show ?thesis
    by (rule withAuth_empty_secret [OF _ secret]) simp
qed

text \<open>
  Claim C2. On a request for any path but the health path, when the configured secret is
  not empty, the gate lets the request through to the handler if and only if the
  trimmed \<^verbatim>\<open>x-api-token\<close> header equals the secret, or the trimmed \<^verbatim>\<open>Authorization\<close> header
  starts with the bearer scheme in any letter case and the trimmed rest of it equals the
  secret byte for byte; every other request is answered 401 and the handler is not run.
\<close>

theorem withAuth_credentials:
  assumes "URL_Path r \<noteq> ''/health''" and "TrimSpace (API_TOKEN e) \<noteq> ''''"
  shows "withAuth e next r w =
           (if credentialAccepted (TrimSpace (API_TOKEN e)) (x_api_token r) (Authorization r)
            then next r w
            else (writeJSON 401 (ErrorJSON \<lparr>Error = ''unauthorized''\<rparr>), w))"
  using assms
  by (auto simp add: withAuth_def Let_def credentialAccepted_def HasPrefix_ToLower_bearer)

text \<open>
  Two instances with the secret \<^verbatim>\<open>s3cret\<close>: the scheme in capitals is let through, the
  token in capitals is refused.
\<close>

theorem withAuth_credentials_witness:
  "withAuth \<lparr>API_TOKEN = ''s3cret'', MINIO_ALIAS = '''', PUBLIC_MINIO_BASE_URL = ''''\<rparr>
     (\<lambda>r w. (writeJSON 200 (ErrorJSON \<lparr>Error = ''reached''\<rparr>), Suc w))
     \<lparr>Method = ''POST'', URL_Path = ''/presign'', x_api_token = '''',
        Authorization = ''BEARER s3cret'', Body = BadJSON\<rparr> (0::nat) =
   (writeJSON 200 (ErrorJSON \<lparr>Error = ''reached''\<rparr>), 1)
   \<and>
   withAuth \<lparr>API_TOKEN = ''s3cret'', MINIO_ALIAS = '''', PUBLIC_MINIO_BASE_URL = ''''\<rparr>
     (\<lambda>r w. (writeJSON 200 (ErrorJSON \<lparr>Error = ''reached''\<rparr>), Suc w))
     \<lparr>Method = ''POST'', URL_Path = ''/presign'', x_api_token = '''',
        Authorization = ''Bearer S3CRET'', Body = BadJSON\<rparr> (0::nat) =
   (writeJSON 401 (ErrorJSON \<lparr>Error = ''unauthorized''\<rparr>), 0)"
proof -
  let ?e = "\<lparr>API_TOKEN = ''s3cret'', MINIO_ALIAS = '''', PUBLIC_MINIO_BASE_URL = ''''\<rparr>"
  have secret: "TrimSpace (API_TOKEN ?e) \<noteq> ''''"
    by code_simp
  have yes: "credentialAccepted (TrimSpace (API_TOKEN ?e)) '''' ''BEARER s3cret''"
    by code_simp
  have no: "\<not> credentialAccepted (TrimSpace (API_TOKEN ?e)) '''' ''Bearer S3CRET''"
    by code_simp
  show ?thesis
    using yes no by (simp add: withAuth_credentials [OF _ secret])
qed

section \<open>The expiration formatter: properties\<close>

lemma decimal_not_empty: "decimal n \<noteq> []"
  by (subst decimal.simps) simp

lemma Sprintf_d_not_empty: "Sprintf_d n \<noteq> []"
  by (simp add: Sprintf_d_def decimal_not_empty)

lemma buildExpire_spec:
  assumes "0 \<le> d" "0 \<le> h" "0 \<le> m" "\<not> (d = 0 \<and> h = 0 \<and> m = 0)"
  shows "buildExpire d h m = expirationSpec d h m"
  using assms by (auto simp add: buildExpire_def expirationSpec_def)

lemma buildExpire_not_empty:
  assumes "0 \<le> d" "0 \<le> h" "0 \<le> m" "\<not> (d = 0 \<and> h = 0 \<and> m = 0)"
  shows "buildExpire d h m \<noteq> ''''"
  using assms by (auto simp add: buildExpire_def Sprintf_d_not_empty)

lemma buildExpire_zero: "buildExpire 0 0 0 = ''''"
  by (simp add: buildExpire_def)

lemma buildExpire_negative:
  assumes "d < 0 \<or> h < 0 \<or> m < 0"
  shows "buildExpire d h m = ''''"
  using assms by (simp add: buildExpire_def)

text \<open>
  Claim C5. For days, hours and minutes that are not negative and not all zero, the
  formatter returns the components that are not zero, each as its number and its unit
  letter, days then hours then minutes, with nothing between them, and the result is not
  the empty sentinel. (2,3,15) gives \<^verbatim>\<open>2d3h15m\<close>, (0,3,0) gives \<^verbatim>\<open>3h\<close>, and (0,0,0) gives the
  empty sentinel, for which the handler runs the tool with \<^verbatim>\<open>15m\<close> and reports \<^verbatim>\<open>15m\<close>.
\<close>

theorem buildExpire_format:
  "(0 \<le> d \<and> 0 \<le> h \<and> 0 \<le> m \<and> \<not> (d = 0 \<and> h = 0 \<and> m = 0) \<longrightarrow>
      buildExpire d h m = expirationSpec d h m \<and> buildExpire d h m \<noteq> '''') \<and>
   buildExpire 2 3 15 = ''2d3h15m'' \<and>
   buildExpire 0 3 0 = ''3h'' \<and>
   buildExpire 0 0 0 = '''' \<and>
   (accepted r q \<and> Days q = 0 \<and> Hours q = 0 \<and> Minutes q = 0 \<and>
    run ''mc'' [''share'', ''download'', ''--expire'', ''15m'', signingTarget e q] w = (res, w') \<and>
    ctxErr res = None \<and> cmdErr res = None \<and> extractShareURL (combinedOutput res) = Inr u \<longrightarrow>
      presignHandler urlParse urlString e run r w =
        (writeJSON 200
           (PresignJSON \<lparr>URL = rewritePublicBase urlParse urlString e u, Object = objectPathOf q,
              RespBucket = TrimSpace (Bucket q), ExpiresIn = ''15m''\<rparr>), w'))"
proof (intro conjI impI)
  assume "0 \<le> d \<and> 0 \<le> h \<and> 0 \<le> m \<and> \<not> (d = 0 \<and> h = 0 \<and> m = 0)"
  then have nn: "0 \<le> d" "0 \<le> h" "0 \<le> m" "\<not> (d = 0 \<and> h = 0 \<and> m = 0)"
    by simp_all
  show "buildExpire d h m = expirationSpec d h m"
    using nn by (rule buildExpire_spec)
  show "buildExpire d h m \<noteq> ''''"
    using nn by (rule buildExpire_not_empty)
next
  show "buildExpire 2 3 15 = ''2d3h15m''" by code_simp
next
  show "buildExpire 0 3 0 = ''3h''" by code_simp
next
  show "buildExpire 0 0 0 = ''''" by (rule buildExpire_zero)
next
  assume a: "accepted r q \<and> Days q = 0 \<and> Hours q = 0 \<and> Minutes q = 0 \<and>
    run ''mc'' [''share'', ''download'', ''--expire'', ''15m'', signingTarget e q] w = (res, w') \<and>
    ctxErr res = None \<and> cmdErr res = None \<and> extractShareURL (combinedOutput res) = Inr u"
  then have expire: "expireArg q = ''15m''"
    by (simp add: expireArg_def buildExpire_zero)
  with a have ran: "run ''mc'' (mcArgs e q) w = (res, w')"
    by (simp add: mcArgs_def)
  from a have acc: "accepted r q"
    by simp
  from a expire show "presignHandler urlParse urlString e run r w =
        (writeJSON 200
           (PresignJSON \<lparr>URL = rewritePublicBase urlParse urlString e u, Object = objectPathOf q,
              RespBucket = TrimSpace (Bucket q), ExpiresIn = ''15m''\<rparr>), w')"
    by (simp add: presignHandler_accepted [where run = run, OF acc ran])
qed

text \<open>
  An instance: 120 days and 7 minutes, and a request for \<^verbatim>\<open>b/f.pdf\<close> without a duration
  answered by a tool that prints a share line.
\<close>

theorem buildExpire_format_witness:
  "buildExpire 120 0 7 = ''120d7m'' \<and>
   presignHandler url_Parse url_String exampleEnv (cannedRun shareRun)
     (examplePost \<lparr>Bucket = ''b'', Folder = '''', Key = ''f.pdf'', Days = 0, Hours = 0,
        Minutes = 0\<rparr>) [] =
     (writeJSON 200
        (PresignJSON \<lparr>URL = ''https://s3.local/b/f.pdf?sig=z'', Object = ''f.pdf'',
           RespBucket = ''b'', ExpiresIn = ''15m''\<rparr>),
      [[''mc'', ''share'', ''download'', ''--expire'', ''15m'', ''myminio/b/f.pdf'']])"
proof -
  let ?q = "\<lparr>Bucket = ''b'', Folder = '''', Key = ''f.pdf'', Days = 0, Hours = 0, Minutes = 0\<rparr>"
  let ?w = "[[''mc'', ''share'', ''download'', ''--expire'', ''15m'', ''myminio/b/f.pdf'']]"
  note format = buildExpire_format [where d = 120 and h = 0 and m = 7 and r = "examplePost ?q"
      and q = ?q and run = "cannedRun shareRun" and e = exampleEnv and w = "[]"
      and res = shareRun and w' = ?w and u = "''https://s3.local/b/f.pdf?sig=z''"
      and urlParse = url_Parse and urlString = url_String]
  have spec: "expirationSpec 120 0 7 = ''120d7m''"
    by code_simp
  have acc: "accepted (examplePost ?q) ?q"
    by code_simp
  have ran: "cannedRun shareRun ''mc''
      [''share'', ''download'', ''--expire'', ''15m'', signingTarget exampleEnv ?q] [] =
      (shareRun, ?w)"
    by code_simp
  have ok: "ctxErr shareRun = None" "cmdErr shareRun = None"
    by (simp_all add: shareRun_def)
  have share: "extractShareURL (combinedOutput shareRun) = Inr ''https://s3.local/b/f.pdf?sig=z''"
    by code_simp
  have same: "rewritePublicBase url_Parse url_String exampleEnv ''https://s3.local/b/f.pdf?sig=z''
      = ''https://s3.local/b/f.pdf?sig=z''"
    by code_simp
  have path: "objectPathOf ?q = ''f.pdf''"
    by code_simp
  have bucket: "TrimSpace ''b'' = ''b''"
    by code_simp
  from format spec have "buildExpire 120 0 7 = ''120d7m''"
    by simp
  moreover from format acc ran ok share same path bucket
  have "presignHandler url_Parse url_String exampleEnv (cannedRun shareRun) (examplePost ?q) [] =
     (writeJSON 200
        (PresignJSON \<lparr>URL = ''https://s3.local/b/f.pdf?sig=z'', Object = ''f.pdf'',
           RespBucket = ''b'', ExpiresIn = ''15m''\<rparr>), ?w)"
    by simp
  ultimately show ?thesis
    by simp
qed

text \<open>
  Claim C3, as the code has it. When days, hours or minutes is negative, the formatter
  returns the same empty sentinel as for (0,0,0), the handler takes the default of 15
  minutes for it, and it answers the request exactly as it answers the same request
  with all three set to zero: no validation error is raised for the negative value.
\<close>

theorem negative_duration_defaults:
  assumes "Days q < 0 \<or> Hours q < 0 \<or> Minutes q < 0"
  shows "buildExpire (Days q) (Hours q) (Minutes q) = buildExpire 0 0 0 \<and>
         expireArg q = ''15m'' \<and>
         presignHandler urlParse urlString e run (r\<lparr>Body := Decoded q\<rparr>) w =
         presignHandler urlParse urlString e run
           (r\<lparr>Body := Decoded (q\<lparr>Days := 0, Hours := 0, Minutes := 0\<rparr>)\<rparr>) w"
proof -
  have neg: "buildExpire (Days q) (Hours q) (Minutes q) = ''''"
    using assms by (rule buildExpire_negative)
  then show ?thesis
    by (simp add: presignHandler_def expireArg_def buildExpire_zero Let_def
        split: prod.split option.split sum.split)
qed

text \<open>
  The claim as written fails: a request with \<^verbatim>\<open>days = -1\<close> and \<^verbatim>\<open>minutes = 10\<close> is answered
  200 with the default of 15 minutes, and the formatter's result for it is the one for
  (0,0,0).
\<close>

theorem negative_duration_counterexample:
  "presignHandler url_Parse url_String exampleEnv (cannedRun shareRun)
     (examplePost \<lparr>Bucket = ''b'', Folder = '''', Key = ''f.pdf'', Days = - 1, Hours = 0,
        Minutes = 10\<rparr>) [] =
     (writeJSON 200
        (PresignJSON \<lparr>URL = ''https://s3.local/b/f.pdf?sig=z'', Object = ''f.pdf'',
           RespBucket = ''b'', ExpiresIn = ''15m''\<rparr>),
      [[''mc'', ''share'', ''download'', ''--expire'', ''15m'', ''myminio/b/f.pdf'']]) \<and>
   buildExpire (- 1) 0 10 = buildExpire 0 0 0"
  by code_simp

theorem negative_duration_defaults_witness:
  "(- 1 :: int) < 0 \<and>
   presignHandler url_Parse url_String exampleEnv (cannedRun shareRun)
     (examplePost \<lparr>Bucket = ''b'', Folder = '''', Key = ''f.pdf'', Days = - 1, Hours = 0,
        Minutes = 10\<rparr>) [] =
   presignHandler url_Parse url_String exampleEnv (cannedRun shareRun)
     (examplePost \<lparr>Bucket = ''b'', Folder = '''', Key = ''f.pdf'', Days = 0, Hours = 0,
        Minutes = 0\<rparr>) []"
proof -
  let ?q = "\<lparr>Bucket = ''b'', Folder = '''', Key = ''f.pdf'', Days = - 1, Hours = 0, Minutes = 10\<rparr>"
  have neg: "Days ?q < 0 \<or> Hours ?q < 0 \<or> Minutes ?q < 0"
    by simp
  from negative_duration_defaults [OF neg, where r = "examplePost ?q" and e = exampleEnv
      and run = "cannedRun shareRun" and w = "[]" and urlParse = url_Parse
      and urlString = url_String]
  show ?thesis
    by (simp add: examplePost_def)
qed

section \<open>The object path builder: properties\<close>

lemma HasPrefix_single: "HasPrefix s [x] \<longleftrightarrow> (\<exists>xs. s = x # xs)"
  by (cases s) (auto simp add: HasPrefix_def)

lemma HasPrefix_double: "HasPrefix s [x, x] \<longleftrightarrow> (\<exists>xs. s = x # x # xs)"
  by (cases s; cases "tl s") (auto simp add: HasPrefix_def)

lemma HasSuffix_single: "HasSuffix s [x] \<longleftrightarrow> (\<exists>xs. s = xs @ [x])"
  by (auto simp add: HasSuffix_def suffix_def)

lemma HasSuffix_double: "HasSuffix s [x, x] \<longleftrightarrow> (\<exists>xs. s = xs @ [x, x])"
  by (auto simp add: HasSuffix_def suffix_def)

lemma TrimPrefix_single:
  "TrimPrefix s [x] = (case s of [] \<Rightarrow> [] | c # cs \<Rightarrow> if c = x then cs else s)"
  by (cases s) (auto simp add: TrimPrefix_def HasPrefix_def)

lemma TrimSuffix_snoc: "TrimSuffix (xs @ [c]) [x] = (if c = x then xs else xs @ [c])"
  by (auto simp add: TrimSuffix_def HasSuffix_def suffix_def)

lemma TrimSuffix_Nil: "TrimSuffix [] p = []"
  by (simp add: TrimSuffix_def)

text \<open>Stripping one separator leaves none in front unless there were two.\<close>

lemma no_lead_after_TrimPrefix:
  "\<not> HasPrefix t [x, x] \<Longrightarrow> \<not> HasPrefix (TrimPrefix t [x]) [x]"
  by (cases t) (auto simp add: TrimPrefix_single HasPrefix_single HasPrefix_double)

lemma no_lead_after_TrimSuffix:
  "\<not> HasPrefix s [x] \<Longrightarrow> \<not> HasPrefix (TrimSuffix s [x]) [x]"
  by (cases s rule: rev_cases)
     (auto simp add: TrimSuffix_snoc TrimSuffix_Nil HasPrefix_single)

lemma no_trail_after_TrimSuffix:
  "\<not> HasSuffix s [x, x] \<Longrightarrow> \<not> HasSuffix (TrimSuffix s [x]) [x]"
  by (cases s rule: rev_cases)
     (auto simp add: TrimSuffix_snoc TrimSuffix_Nil HasSuffix_single HasSuffix_double)

lemma double_trail_TrimPrefix:
  "HasSuffix (TrimPrefix t [x]) [x, x] \<Longrightarrow> HasSuffix t [x, x]"
  by (cases t) (auto simp add: TrimPrefix_single HasSuffix_def suffix_Cons split: if_splits)

lemma TrimSuffix_not_empty:
  "s \<noteq> [] \<Longrightarrow> \<not> HasPrefix s [x] \<Longrightarrow> TrimSuffix s [x] \<noteq> []"
  by (cases s rule: rev_cases) (auto simp add: TrimSuffix_snoc HasPrefix_single)

lemma TrimPrefix_not_empty:
  "t \<noteq> [] \<Longrightarrow> t \<noteq> [x] \<Longrightarrow> TrimPrefix t [x] \<noteq> []"
  by (cases t) (auto simp add: TrimPrefix_single)

lemma clean_no_separator:
  assumes "singleSeparators (TrimSpace s)"
  shows "\<not> HasPrefix (clean s) ''/''" and "\<not> HasSuffix (clean s) ''/''"
proof -
  from assms have lead: "\<not> HasPrefix (TrimSpace s) ''//''"
    and trail: "\<not> HasSuffix (TrimSpace s) ''//''"
    by (simp_all add: singleSeparators_def)
  show "\<not> HasPrefix (clean s) ''/''"
    unfolding clean_def
    by (rule no_lead_after_TrimSuffix [OF no_lead_after_TrimPrefix [OF lead]])
  from trail double_trail_TrimPrefix
  have "\<not> HasSuffix (TrimPrefix (TrimSpace s) ''/'') ''//''"
    by blast
  then show "\<not> HasSuffix (clean s) ''/''"
    unfolding clean_def by (rule no_trail_after_TrimSuffix)
qed

lemma clean_not_empty:
  assumes "TrimSpace s \<noteq> ''''" "TrimSpace s \<noteq> ''/''" "singleSeparators (TrimSpace s)"
  shows "clean s \<noteq> ''''"
proof -
  from assms have lead: "\<not> HasPrefix (TrimSpace s) ''//''"
    by (simp add: singleSeparators_def)
  have "TrimPrefix (TrimSpace s) ''/'' \<noteq> ''''"
    using assms(1,2) by (rule TrimPrefix_not_empty)
  then show ?thesis
    unfolding clean_def using no_lead_after_TrimPrefix [OF lead] by (rule TrimSuffix_not_empty)
qed

lemma HasPrefix_append: "a \<noteq> [] \<Longrightarrow> HasPrefix (a @ b) [x] \<longleftrightarrow> HasPrefix a [x]"
  by (cases a) (auto simp add: HasPrefix_single)

lemma HasSuffix_append: "b \<noteq> [] \<Longrightarrow> HasSuffix (a @ b) [x] \<longleftrightarrow> HasSuffix b [x]"
  by (cases b rule: rev_cases) (auto simp add: HasSuffix_single)

text \<open>
  Claim C4, as the code has it. Each segment is trimmed of white space and loses one
  leading and one trailing separator, no more. So let the trimmed key be neither empty
  nor a single separator, and let neither trimmed segment begin or end with two
  separators. Then the object path has no separator at its start or at its end; it is
  the cleaned key alone when the cleaned folder is empty, and otherwise the cleaned
  folder, one separator and the cleaned key, where the cleaned folder does not end with
  a separator and the cleaned key does not begin with one.
\<close>

theorem joinObjectPath_separators:
  assumes "TrimSpace key \<noteq> ''''" and "TrimSpace key \<noteq> ''/''"
    and "singleSeparators (TrimSpace key)" and "singleSeparators (TrimSpace folder)"
  shows "\<not> HasPrefix (joinObjectPath folder key) ''/'' \<and>
         \<not> HasSuffix (joinObjectPath folder key) ''/'' \<and>
         clean key \<noteq> '''' \<and>
         (if clean folder = '''' then joinObjectPath folder key = clean key
          else joinObjectPath folder key = clean folder @ ''/'' @ clean key \<and>
               \<not> HasSuffix (clean folder) ''/'' \<and> \<not> HasPrefix (clean key) ''/'')"
proof -
  note k = clean_no_separator [OF assms(3)] and f = clean_no_separator [OF assms(4)]
  have ne: "clean key \<noteq> ''''"
    using assms(1-3) by (rule clean_not_empty)
  show ?thesis
  proof (cases "clean folder = ''''")
    case True
    with k ne show ?thesis
      by (simp add: joinObjectPath_def)
  next
    case False
    have "\<not> HasPrefix (clean folder @ ''/'' @ clean key) ''/''"
      using False f(1) by (simp add: HasPrefix_append)
    moreover have "\<not> HasSuffix (clean folder @ ''/'' @ clean key) ''/''"
      using ne k(2)
        HasSuffix_append [where b = "clean key" and x = "CHR ''/''" and a = "clean folder @ ''/''"]
      by simp
    ultimately show ?thesis
      using False k f ne by (simp add: joinObjectPath_def)
  qed
qed

text \<open>An instance: a folder and a key written with spaces and separators around them.\<close>

theorem joinObjectPath_separators_witness:
  "TrimSpace '' /file.pdf '' \<noteq> '''' \<and>
   \<not> HasPrefix (joinObjectPath '' /invoices/Jan/ '' '' /file.pdf '') ''/'' \<and>
   \<not> HasSuffix (joinObjectPath '' /invoices/Jan/ '' '' /file.pdf '') ''/'' \<and>
   joinObjectPath '' /invoices/Jan/ '' '' /file.pdf '' = ''invoices/Jan/file.pdf''"
proof -
  have key: "TrimSpace '' /file.pdf '' \<noteq> ''''" "TrimSpace '' /file.pdf '' \<noteq> ''/''"
    "singleSeparators (TrimSpace '' /file.pdf '')"
    by code_simp+
  have folder: "singleSeparators (TrimSpace '' /invoices/Jan/ '')"
    by code_simp
  have path: "joinObjectPath '' /invoices/Jan/ '' '' /file.pdf '' = ''invoices/Jan/file.pdf''"
    by code_simp
  from joinObjectPath_separators [OF key folder]
  have "\<not> HasPrefix (joinObjectPath '' /invoices/Jan/ '' '' /file.pdf '') ''/'' \<and>
        \<not> HasSuffix (joinObjectPath '' /invoices/Jan/ '' '' /file.pdf '') ''/''"
    by blast
  with key(1) path show ?thesis
    by blast
qed

text \<open>
  The claim as written fails: the key \<^verbatim>\<open>//a\<close> is not empty after trimming, and the object
  path built from it with an empty folder begins with a separator.
\<close>

theorem joinObjectPath_leading_separator_counterexample:
  "TrimSpace ''//a'' \<noteq> '''' \<and> joinObjectPath '''' ''//a'' = ''/a'' \<and>
   HasPrefix (joinObjectPath '''' ''//a'') ''/''"
  by code_simp

text \<open>
  Claim C10, as the code has it. A POST with a bucket, an empty folder and a key that
  is one separator or two after trimming passes validation, since the trimmed key is
  not empty; the object path built from it is empty; so the tool is run on a target that
  ends with the separator after the bucket, and when the tool succeeds and prints a
  share line the response reports the empty string as the object.
\<close>

theorem separator_key_empty_object:
  assumes "Method r = ''POST''" and "Body r = Decoded q" and "TrimSpace (Bucket q) \<noteq> ''''"
    and "TrimSpace (Folder q) = ''''"
    and "TrimSpace (Key q) = ''/'' \<or> TrimSpace (Key q) = ''//''"
  shows "accepted r q \<and> objectPathOf q = '''' \<and>
         signingTarget e q = getenv (MINIO_ALIAS e) ''myminio'' @ ''/'' @ TrimSpace (Bucket q) @ ''/'' \<and>
         HasSuffix (signingTarget e q) ''/'' \<and>
         (run ''mc'' [''share'', ''download'', ''--expire'', expireArg q,
                      getenv (MINIO_ALIAS e) ''myminio'' @ ''/'' @ TrimSpace (Bucket q) @ ''/''] w
            = (res, w') \<and>
          ctxErr res \<noteq> Some DeadlineExceeded \<and> cmdErr res = None \<and>
          extractShareURL (combinedOutput res) = Inr u \<longrightarrow>
            presignHandler urlParse urlString e run r w =
              (writeJSON 200
                 (PresignJSON \<lparr>URL = rewritePublicBase urlParse urlString e u, Object = '''',
                    RespBucket = TrimSpace (Bucket q), ExpiresIn = expireArg q\<rparr>), w'))"
proof -
  have acc: "accepted r q"
    using assms by (auto simp add: accepted_def)
  have one: "joinObjectPath '''' ''/'' = ''''" and two: "joinObjectPath '''' ''//'' = ''''"
    by code_simp+
  have path: "objectPathOf q = ''''"
    using assms(4,5) one two by (auto simp add: objectPathOf_def)
  have target: "signingTarget e q =
      getenv (MINIO_ALIAS e) ''myminio'' @ ''/'' @ TrimSpace (Bucket q) @ ''/''"
    by (simp add: signingTarget_def path)
  have ends: "HasSuffix (signingTarget e q) ''/''"
    unfolding target HasSuffix_single by (rule exI [of _ "getenv (MINIO_ALIAS e) ''myminio'' @ ''/'' @ TrimSpace (Bucket q)"]) simp
  have answer: "presignHandler urlParse urlString e run r w =
      (writeJSON 200
         (PresignJSON \<lparr>URL = rewritePublicBase urlParse urlString e u, Object = '''',
            RespBucket = TrimSpace (Bucket q), ExpiresIn = expireArg q\<rparr>), w')"
    if ran: "run ''mc'' [''share'', ''download'', ''--expire'', expireArg q,
                      getenv (MINIO_ALIAS e) ''myminio'' @ ''/'' @ TrimSpace (Bucket q) @ ''/''] w
            = (res, w')"
      and ok: "ctxErr res \<noteq> Some DeadlineExceeded" "cmdErr res = None"
        "extractShareURL (combinedOutput res) = Inr u"
  proof -
    from ran have "run ''mc'' (mcArgs e q) w = (res, w')"
      by (simp add: mcArgs_def target)
    from presignHandler_accepted [where run = run, OF acc this] ok path show ?thesis
      by simp
  qed
  from acc path target ends answer show ?thesis
    by blast
qed

text \<open>An instance: bucket \<^verbatim>\<open>b\<close>, no folder, and the key \<^verbatim>\<open>/\<close> between two spaces.\<close>

theorem separator_key_empty_object_witness:
  "TrimSpace '' / '' \<noteq> '''' \<and>
   presignHandler url_Parse url_String exampleEnv (cannedRun shareRun)
     (examplePost \<lparr>Bucket = ''b'', Folder = '''', Key = '' / '', Days = 0, Hours = 0,
        Minutes = 10\<rparr>) [] =
     (writeJSON 200
        (PresignJSON \<lparr>URL = ''https://s3.local/b/f.pdf?sig=z'', Object = '''',
           RespBucket = ''b'', ExpiresIn = ''10m''\<rparr>),
      [[''mc'', ''share'', ''download'', ''--expire'', ''10m'', ''myminio/b/'']])"
proof -
  let ?q = "\<lparr>Bucket = ''b'', Folder = '''', Key = '' / '', Days = 0, Hours = 0, Minutes = 10\<rparr>"
  let ?w = "[[''mc'', ''share'', ''download'', ''--expire'', ''10m'', ''myminio/b/'']]"
  have post: "Method (examplePost ?q) = ''POST''" and decoded: "Body (examplePost ?q) = Decoded ?q"
    by (simp_all add: examplePost_def)
  have bucket: "TrimSpace (Bucket ?q) \<noteq> ''''" and folder: "TrimSpace (Folder ?q) = ''''"
    and key: "TrimSpace (Key ?q) = ''/'' \<or> TrimSpace (Key ?q) = ''//''"
    by code_simp+
  note inst = separator_key_empty_object [OF post decoded bucket folder key,
      where run = "cannedRun shareRun" and e = exampleEnv and w = "[]" and res = shareRun
        and w' = ?w and u = "''https://s3.local/b/f.pdf?sig=z''" and urlParse = url_Parse
        and urlString = url_String]
  have ran: "cannedRun shareRun ''mc'' [''share'', ''download'', ''--expire'', expireArg ?q,
      getenv (MINIO_ALIAS exampleEnv) ''myminio'' @ ''/'' @ TrimSpace (Bucket ?q) @ ''/''] []
      = (shareRun, ?w)"
    by code_simp
  have ok: "ctxErr shareRun \<noteq> Some DeadlineExceeded" "cmdErr shareRun = None"
    by (simp_all add: shareRun_def)
  have share: "extractShareURL (combinedOutput shareRun) = Inr ''https://s3.local/b/f.pdf?sig=z''"
    by code_simp
  have evals: "rewritePublicBase url_Parse url_String exampleEnv ''https://s3.local/b/f.pdf?sig=z''
      = ''https://s3.local/b/f.pdf?sig=z''" "TrimSpace (Bucket ?q) = ''b''" "expireArg ?q = ''10m''"
    by code_simp+
  have trimmed: "TrimSpace '' / '' \<noteq> ''''"
    by code_simp
  from inst ran ok share
  have "presignHandler url_Parse url_String exampleEnv (cannedRun shareRun) (examplePost ?q) [] =
      (writeJSON 200
         (PresignJSON \<lparr>URL = rewritePublicBase url_Parse url_String exampleEnv
              ''https://s3.local/b/f.pdf?sig=z'', Object = '''',
            RespBucket = TrimSpace (Bucket ?q), ExpiresIn = expireArg ?q\<rparr>), ?w)"
    by blast
  with evals trimmed show ?thesis
    by simp
qed

text \<open>
  The claim as written fails for a key of three separators: it consists of separators
  only, and the object path built from it is one separator, not the empty string.
\<close>

theorem three_separators_counterexample:
  "TrimSpace ''///'' = ''///'' \<and> list_all (\<lambda>c. c = CHR ''/'') (TrimSpace ''///'') \<and>
   joinObjectPath '''' (TrimSpace ''///'') = ''/''"
  by code_simp

section \<open>The line-anchored extractor: properties\<close>

lemma scanShareLines_find:
  "scanShareLines ls =
     (case find (\<lambda>l. HasPrefix l ''Share:'') (map TrimSpace ls) of
        None \<Rightarrow> Inl ''could not find Share: line in mc output''
      | Some l \<Rightarrow>
          if TrimSpace (drop 6 l) = '''' then Inl ''Share line present but empty''
          else Inr (TrimSpace (drop 6 l)))"
proof -
  have marker: "TrimPrefix l ''Share:'' = drop 6 l" if "HasPrefix l ''Share:''" for l
  proof -
    have "length ''Share:'' = 6" by simp
    with that show ?thesis unfolding TrimPrefix_def by (simp only: if_True)
  qed
  show ?thesis
    by (induction ls) (simp_all add: Let_def marker)
qed

lemma scanShareLines_skip:
  assumes "\<forall>l\<in>set pre. \<not> HasPrefix (TrimSpace l) ''Share:''"
  shows "scanShareLines (pre @ ls) = scanShareLines ls"
  using assms by (induction pre) simp_all

lemma scanShareLines_example:
  "scanShareLines (''Share: https://x.example/obj?sig=abc'' # post) =
     Inr ''https://x.example/obj?sig=abc''"
proof -
  have line: "TrimSpace ''Share: https://x.example/obj?sig=abc'' =
      ''Share: https://x.example/obj?sig=abc''"
    by code_simp
  have marker: "HasPrefix ''Share: https://x.example/obj?sig=abc'' ''Share:''"
    by code_simp
  have rest: "TrimSpace (TrimPrefix ''Share: https://x.example/obj?sig=abc'' ''Share:'') =
      ''https://x.example/obj?sig=abc''"
    by code_simp
  show ?thesis
    by (simp only: scanShareLines.simps Let_def line marker rest if_True) simp
qed

text \<open>
  Claim C6. The extractor splits the output into lines and trims each; the first
  trimmed line that begins with \<^verbatim>\<open>Share:\<close> decides: the result is that line without the
  marker (its first six bytes), trimmed. It is an error exactly when no line begins with
  the marker or the remainder of the first such line is empty after trimming. In
  particular, when the line \<^verbatim>\<open>Share: https://x.example/obj?sig=abc\<close> is the first line of
  the output with the marker, the result is \<^verbatim>\<open>https://x.example/obj?sig=abc\<close>.
\<close>

theorem extractShareURL_first_line:
  "extractShareURL out =
     (case firstShareLine out of
        None \<Rightarrow> Inl ''could not find Share: line in mc output''
      | Some l \<Rightarrow>
          if TrimSpace (drop 6 l) = '''' then Inl ''Share line present but empty''
          else Inr (TrimSpace (drop 6 l))) \<and>
   (isl (extractShareURL out) \<longleftrightarrow>
      firstShareLine out = None \<or>
      (\<exists>l. firstShareLine out = Some l \<and> TrimSpace (drop 6 l) = '''')) \<and>
   (SplitLines out = pre @ [''Share: https://x.example/obj?sig=abc''] @ post \<and>
    (\<forall>l\<in>set pre. \<not> HasPrefix (TrimSpace l) ''Share:'') \<longrightarrow>
      extractShareURL out = Inr ''https://x.example/obj?sig=abc'')"
proof (intro conjI impI)
  show first: "extractShareURL out =
     (case firstShareLine out of
        None \<Rightarrow> Inl ''could not find Share: line in mc output''
      | Some l \<Rightarrow>
          if TrimSpace (drop 6 l) = '''' then Inl ''Share line present but empty''
          else Inr (TrimSpace (drop 6 l)))"
    by (simp only: extractShareURL_def firstShareLine_def scanShareLines_find)
  show "isl (extractShareURL out) \<longleftrightarrow>
      firstShareLine out = None \<or>
      (\<exists>l. firstShareLine out = Some l \<and> TrimSpace (drop 6 l) = '''')"
    unfolding first by (cases "firstShareLine out") simp_all
next
  assume a: "SplitLines out = pre @ [''Share: https://x.example/obj?sig=abc''] @ post \<and>
    (\<forall>l\<in>set pre. \<not> HasPrefix (TrimSpace l) ''Share:'')"
  then have "extractShareURL out =
      scanShareLines (pre @ ''Share: https://x.example/obj?sig=abc'' # post)"
    by (simp add: extractShareURL_def)
  also from a have "\<dots> = scanShareLines (''Share: https://x.example/obj?sig=abc'' # post)"
    by (intro scanShareLines_skip) simp
  also have "\<dots> = Inr ''https://x.example/obj?sig=abc''"
    by (rule scanShareLines_example)
  finally show "extractShareURL out = Inr ''https://x.example/obj?sig=abc''" .
qed

text \<open>An instance: the share line between a line before it and an empty last line.\<close>

theorem extractShareURL_first_line_witness:
  "SplitLines ''URL: https://x.example/obj\<newline>Share: https://x.example/obj?sig=abc\<newline>'' =
     [''URL: https://x.example/obj''] @ [''Share: https://x.example/obj?sig=abc''] @ [''''] \<and>
   extractShareURL ''URL: https://x.example/obj\<newline>Share: https://x.example/obj?sig=abc\<newline>'' =
     Inr ''https://x.example/obj?sig=abc''"
proof -
  let ?out = "''URL: https://x.example/obj\<newline>Share: https://x.example/obj?sig=abc\<newline>''"
  have lines: "SplitLines ?out =
      [''URL: https://x.example/obj''] @ [''Share: https://x.example/obj?sig=abc''] @ ['''']"
    by code_simp
  have before: "\<forall>l\<in>set [''URL: https://x.example/obj'']. \<not> HasPrefix (TrimSpace l) ''Share:''"
    by code_simp
  from extractShareURL_first_line [where out = ?out and pre = "[''URL: https://x.example/obj'']"
      and post = "['''']"] lines before
  have "extractShareURL ?out = Inr ''https://x.example/obj?sig=abc''"
    by blast
  with lines show ?thesis
    by blast
qed

section \<open>The URL rewriter: properties\<close>



section \<open>The handler after the tool has run: properties\<close>

text \<open>
  Claim C8. Let a request pass validation, so that the tool is run, and let the run be
  what the runner returns for the handler's command line. In both variants of the
  handler: when the deadline of the context was exceeded the response is 504 with the
  fixed time-out message, nothing of the output; otherwise, when the run returned an
  error (the tool exited with a status other than zero, or could not be run) the
  response is 400 with the trimmed combined output, or with the error's message when
  the trimmed output is empty; and only otherwise the response is made from the URL
  extracted from the output.
\<close>

theorem tool_outcome_responses:
  assumes "accepted r q"
    and "run ''mc'' [''share'', ''download'', ''--expire'', expireArg q, signingTarget e q] w
           = (res, w')"
  shows
    "(ctxErr res = Some DeadlineExceeded \<longrightarrow>
        presignHandler urlParse urlString e run r w =
          (errorJSON 504 ''mc command timed out'', w') \<and>
        presignHandler_alt e run r w = (errorJSON 504 ''mc command timed out'', w')) \<and>
     (ctxErr res \<noteq> Some DeadlineExceeded \<and> cmdErr res = Some cmdError \<longrightarrow>
        presignHandler urlParse urlString e run r w =
          (errorJSON 400 (if TrimSpace (combinedOutput res) = '''' then cmdError
                          else TrimSpace (combinedOutput res)), w') \<and>
        presignHandler_alt e run r w =
          (errorJSON 400 (if TrimSpace (combinedOutput res) = '''' then cmdError
                          else TrimSpace (combinedOutput res)), w')) \<and>
     (ctxErr res \<noteq> Some DeadlineExceeded \<and> cmdErr res = None \<longrightarrow>
        presignHandler urlParse urlString e run r w =
          (case extractShareURL (combinedOutput res) of
             Inl err \<Rightarrow>
               (errorJSON 400
                  (''could not parse Share URL. mc output: '' @ TrimSpace (combinedOutput res)), w')
           | Inr urlStr \<Rightarrow>
               (writeJSON 200
                  (PresignJSON \<lparr>URL = rewritePublicBase urlParse urlString e urlStr,
                     Object = objectPathOf q, RespBucket = TrimSpace (Bucket q),
                     ExpiresIn = expireArg q\<rparr>), w')) \<and>
        presignHandler_alt e run r w =
          (case extractFirstURL (combinedOutput res) of
             Inl err \<Rightarrow> (errorJSON 500 ''could not extract URL from mc output'', w')
           | Inr url \<Rightarrow>
               (writeJSON 200
                  (PresignJSON \<lparr>URL = url, Object = objectPathOf q,
                     RespBucket = TrimSpace (Bucket q), ExpiresIn = expireArg q\<rparr>), w')))"
proof -
  from assms(2) have ran: "run ''mc'' (mcArgs e q) w = (res, w')"
    by (simp add: mcArgs_def)
  note main = presignHandler_accepted [where run = run, OF assms(1) ran]
    and alt = presignHandler_alt_accepted [where run = run, OF assms(1) ran]
  show ?thesis
    by (simp add: main alt)
qed

text \<open>
  Two instances: a run cut off by the deadline after it printed something, and a run
  that failed with a message on its output.
\<close>

theorem tool_outcome_responses_witness:
  "presignHandler url_Parse url_String exampleEnv
     (cannedRun \<lparr>combinedOutput = ''mc: <ERROR> Unable to'', cmdErr = Some ''signal: killed'',
                  ctxErr = Some DeadlineExceeded\<rparr>)
     (examplePost \<lparr>Bucket = ''b'', Folder = '''', Key = ''f.pdf'', Days = 0, Hours = 0,
        Minutes = 10\<rparr>) [] =
     (errorJSON 504 ''mc command timed out'',
      [[''mc'', ''share'', ''download'', ''--expire'', ''10m'', ''myminio/b/f.pdf'']]) \<and>
   presignHandler_alt exampleEnv
     (cannedRun \<lparr>combinedOutput = ''mc: <ERROR> Object does not exist.\<newline>'',
                  cmdErr = Some ''exit status 1'', ctxErr = None\<rparr>)
     (examplePost \<lparr>Bucket = ''b'', Folder = '''', Key = ''f.pdf'', Days = 0, Hours = 0,
        Minutes = 10\<rparr>) [] =
     (errorJSON 400 ''mc: <ERROR> Object does not exist.'',
      [[''mc'', ''share'', ''download'', ''--expire'', ''10m'', ''myminio/b/f.pdf'']])"
proof -
  let ?q = "\<lparr>Bucket = ''b'', Folder = '''', Key = ''f.pdf'', Days = 0, Hours = 0, Minutes = 10\<rparr>"
  let ?w = "[[''mc'', ''share'', ''download'', ''--expire'', ''10m'', ''myminio/b/f.pdf'']]"
  let ?late = "\<lparr>combinedOutput = ''mc: <ERROR> Unable to'', cmdErr = Some ''signal: killed'',
                  ctxErr = Some DeadlineExceeded\<rparr>"
  let ?failed = "\<lparr>combinedOutput = ''mc: <ERROR> Object does not exist.\<newline>'',
                  cmdErr = Some ''exit status 1'', ctxErr = None\<rparr>"
  have acc: "accepted (examplePost ?q) ?q"
    by code_simp
  have ran1: "cannedRun ?late ''mc''
      [''share'', ''download'', ''--expire'', expireArg ?q, signingTarget exampleEnv ?q] [] =
      (?late, ?w)"
    by code_simp
  have ran2: "cannedRun ?failed ''mc''
      [''share'', ''download'', ''--expire'', expireArg ?q, signingTarget exampleEnv ?q] [] =
      (?failed, ?w)"
    by code_simp
  have trimmed: "TrimSpace (combinedOutput ?failed) = ''mc: <ERROR> Object does not exist.''"
    by code_simp
  from tool_outcome_responses [where run = "cannedRun ?late", OF acc ran1,
      where urlParse = url_Parse and urlString = url_String]
  have "presignHandler url_Parse url_String exampleEnv (cannedRun ?late) (examplePost ?q) [] =
      (errorJSON 504 ''mc command timed out'', ?w)"
    by simp
  moreover
  from tool_outcome_responses [where run = "cannedRun ?failed", OF acc ran2,
      where cmdError = "''exit status 1''"] trimmed
  have "presignHandler_alt exampleEnv (cannedRun ?failed) (examplePost ?q) [] =
      (errorJSON 400 ''mc: <ERROR> Object does not exist.'', ?w)"
    by simp
  ultimately show ?thesis
    by blast
qed

text \<open>
  Claim C9, as the code has it. Let a request pass validation and let the tool exit
  with status zero within the deadline. When the line-anchored extractor finds no URL
  in the output, the handler of main.go answers 400 and the error is the text
  \<^verbatim>\<open>could not parse Share URL. mc output: \<close> followed by the trimmed output. When the
  pattern extractor finds no URL, the handler of the other variant answers 500 and the
  error is the fixed text \<^verbatim>\<open>could not extract URL from mc output\<close>, without the output.
\<close>

theorem unparsable_output_responses:
  assumes "accepted r q"
    and "run ''mc'' [''share'', ''download'', ''--expire'', expireArg q, signingTarget e q] w
           = (res, w')"
    and "ctxErr res \<noteq> Some DeadlineExceeded" and "cmdErr res = None"
  shows
    "(extractShareURL (combinedOutput res) = Inl err \<longrightarrow>
        presignHandler urlParse urlString e run r w =
          (errorJSON 400
             (''could not parse Share URL. mc output: '' @ TrimSpace (combinedOutput res)), w')) \<and>
     (extractFirstURL (combinedOutput res) = Inl err' \<longrightarrow>
        presignHandler_alt e run r w =
          (errorJSON 500 ''could not extract URL from mc output'', w'))"
proof -
  from assms(2) have ran: "run ''mc'' (mcArgs e q) w = (res, w')"
    by (simp add: mcArgs_def)
  note main = presignHandler_accepted [where run = run, OF assms(1) ran]
    and alt = presignHandler_alt_accepted [where run = run, OF assms(1) ran]
  show ?thesis
    using assms(3,4) by (simp add: main alt)
qed

text \<open>An instance: the tool prints a notice and no URL, in both variants.\<close>

theorem unparsable_output_responses_witness:
  "presignHandler url_Parse url_String exampleEnv
     (cannedRun \<lparr>combinedOutput = ''  nothing to share\<newline>'', cmdErr = None, ctxErr = None\<rparr>)
     (examplePost \<lparr>Bucket = ''b'', Folder = '''', Key = ''f.pdf'', Days = 0, Hours = 0,
        Minutes = 10\<rparr>) [] =
     (errorJSON 400 ''could not parse Share URL. mc output: nothing to share'',
      [[''mc'', ''share'', ''download'', ''--expire'', ''10m'', ''myminio/b/f.pdf'']]) \<and>
   presignHandler_alt exampleEnv
     (cannedRun \<lparr>combinedOutput = ''  nothing to share\<newline>'', cmdErr = None, ctxErr = None\<rparr>)
     (examplePost \<lparr>Bucket = ''b'', Folder = '''', Key = ''f.pdf'', Days = 0, Hours = 0,
        Minutes = 10\<rparr>) [] =
     (errorJSON 500 ''could not extract URL from mc output'',
      [[''mc'', ''share'', ''download'', ''--expire'', ''10m'', ''myminio/b/f.pdf'']])"
proof -
  let ?q = "\<lparr>Bucket = ''b'', Folder = '''', Key = ''f.pdf'', Days = 0, Hours = 0, Minutes = 10\<rparr>"
  let ?w = "[[''mc'', ''share'', ''download'', ''--expire'', ''10m'', ''myminio/b/f.pdf'']]"
  let ?res = "\<lparr>combinedOutput = ''  nothing to share\<newline>'', cmdErr = None, ctxErr = None\<rparr>"
  have acc: "accepted (examplePost ?q) ?q"
    by code_simp
  have ran: "cannedRun ?res ''mc''
      [''share'', ''download'', ''--expire'', expireArg ?q, signingTarget exampleEnv ?q] [] =
      (?res, ?w)"
    by code_simp
  have ok: "ctxErr ?res \<noteq> Some DeadlineExceeded" "cmdErr ?res = None"
    by simp_all
  have line: "extractShareURL (combinedOutput ?res) = Inl ''could not find Share: line in mc output''"
    by code_simp
  have pattern: "extractFirstURL (combinedOutput ?res) = Inl ''no URL found''"
    by code_simp
  have trimmed: "TrimSpace (combinedOutput ?res) = ''nothing to share''"
    by code_simp
  note inst = unparsable_output_responses [where run = "cannedRun ?res", OF acc ran ok,
      where urlParse = url_Parse and urlString = url_String
        and err = "''could not find Share: line in mc output''" and err' = "''no URL found''"]
  from inst line trimmed
  have "presignHandler url_Parse url_String exampleEnv (cannedRun ?res) (examplePost ?q) [] =
      (errorJSON 400 ''could not parse Share URL. mc output: nothing to share'', ?w)"
    by simp
  moreover from inst pattern
  have "presignHandler_alt exampleEnv (cannedRun ?res) (examplePost ?q) [] =
      (errorJSON 500 ''could not extract URL from mc output'', ?w)"
    by blast
  ultimately show ?thesis
    by blast
qed

text \<open>
  The claim as written fails in both variants. The tool exits with status zero and
  prints \<^verbatim>\<open>boom\<close> and a line feed. The pattern variant answers 500 with an error that does
  not contain \<^verbatim>\<open>boom\<close>; the line-anchored variant answers 400 with an error that contains
  \<^verbatim>\<open>boom\<close> but not the raw output, whose line feed has been trimmed.
\<close>

theorem unparsable_output_counterexample:
  "presignHandler_alt exampleEnv
     (cannedRun \<lparr>combinedOutput = ''boom\<newline>'', cmdErr = None, ctxErr = None\<rparr>)
     (examplePost \<lparr>Bucket = ''b'', Folder = '''', Key = ''f.pdf'', Days = 0, Hours = 0,
        Minutes = 10\<rparr>) [] =
     (errorJSON 500 ''could not extract URL from mc output'',
      [[''mc'', ''share'', ''download'', ''--expire'', ''10m'', ''myminio/b/f.pdf'']]) \<and>
   \<not> sublist ''boom'' ''could not extract URL from mc output'' \<and>
   presignHandler url_Parse url_String exampleEnv
     (cannedRun \<lparr>combinedOutput = ''boom\<newline>'', cmdErr = None, ctxErr = None\<rparr>)
     (examplePost \<lparr>Bucket = ''b'', Folder = '''', Key = ''f.pdf'', Days = 0, Hours = 0,
        Minutes = 10\<rparr>) [] =
     (errorJSON 400 ''could not parse Share URL. mc output: boom'',
      [[''mc'', ''share'', ''download'', ''--expire'', ''10m'', ''myminio/b/f.pdf'']]) \<and>
   \<not> sublist ''boom\<newline>'' ''could not parse Share URL. mc output: boom''"
  by code_simp

end
